theory Spec2Isabelle
  imports Main
begin

section \<open>Time, durations and configuration\<close>

text \<open>
  A \<open>time.Time\<close> is the number of nanoseconds since the Unix epoch, a
  \<open>time.Duration\<close> a signed 64-bit count of nanoseconds, so a product of durations
  wraps around. Every service call is taken to run within one reading \<open>now\<close> of the
  clock; dates are stored in the collection as they are given.
\<close>

type_synonym time = int

definition wrap64 :: "int \<Rightarrow> int" where
  "wrap64 x = (x + 9223372036854775808) mod 18446744073709551616 - 9223372036854775808"

definition Minute :: int where
  "Minute = 60000000000"

definition Hour :: int where
  "Hour = 3600000000000"

definition Duration_mul :: "int \<Rightarrow> int \<Rightarrow> int" where
  "Duration_mul d n = wrap64 (d * n)"

definition Add :: "time \<Rightarrow> int \<Rightarrow> time" where
  "Add t d = t + d"

definition Unix :: "time \<Rightarrow> int" where
  "Unix t = t div 1000000000"

definition After :: "time \<Rightarrow> time \<Rightarrow> bool" where
  "After t u = (u < t)"

record Config =
  Port :: string
  MongoURI :: string
  GinMode :: string
  DatabaseName :: string
  BackendServerURI :: string
  JWTAccessSecret :: string
  JWTRefreshSecret :: string
  AccessTokenExpireMin :: int
  RefreshTokenExpireHr :: int

text \<open>
  The process environment (after \<open>godotenv.Load\<close>) is a map from variable names to
  values; \<open>os.Getenv\<close> gives the empty string for a variable that is not set.
\<close>

definition Getenv :: "(string \<rightharpoonup> string) \<Rightarrow> string \<Rightarrow> string" where
  "Getenv env key = (case env key of None \<Rightarrow> [] | Some v \<Rightarrow> v)"

definition getEnv :: "(string \<rightharpoonup> string) \<Rightarrow> string \<Rightarrow> string \<Rightarrow> string" where
  "getEnv env key defaulValue =
     (let v = Getenv env key in if v = [] then defaulValue else v)"

text \<open>
  \<open>strconv.Atoi\<close>: an optional sign and decimal digits; a syntax error gives 0, a
  value out of the 64-bit range gives the nearest bound. \<open>LoadConfig\<close> drops the error.
\<close>

definition is_digit :: "char \<Rightarrow> bool" where
  "is_digit c = (48 \<le> (of_char c :: nat) \<and> (of_char c :: nat) \<le> 57)"

fun digits_value :: "int \<Rightarrow> string \<Rightarrow> int" where
  "digits_value acc [] = acc"
| "digits_value acc (c # cs) = digits_value (acc * 10 + (int (of_char c) - 48)) cs"

definition Atoi :: "string \<Rightarrow> int" where
  "Atoi s =
     (let neg = (s \<noteq> [] \<and> hd s = CHR ''-'');
          ds = (if s \<noteq> [] \<and> (hd s = CHR ''-'' \<or> hd s = CHR ''+'') then tl s else s)
      in if ds = [] \<or> \<not> list_all is_digit ds then 0
         else let v = (if neg then - digits_value 0 ds else digits_value 0 ds)
              in max (- 9223372036854775808) (min 9223372036854775807 v))"

definition LoadConfig :: "(string \<rightharpoonup> string) \<Rightarrow> Config" where
  "LoadConfig env =
     (let accessExp = Atoi (getEnv env ''ACCESS_TOKEN_EXPIRE_MINUTES'' ''15'');
          refreshExp = Atoi (getEnv env ''REFRESH_TOKEN_EXPIRE_HOURS'' ''168'')
      in \<lparr> Port = getEnv env ''PORT'' ''5000'',
           MongoURI = getEnv env ''MONGO_URI'' [],
           GinMode = getEnv env ''GIN_MODE'' ''debug'',
           DatabaseName = getEnv env ''DATABASE_NAME'' [],
           BackendServerURI = getEnv env ''BACKEND_URI'' [],
           JWTAccessSecret = getEnv env ''JWT_ACCESS_SECRET'' [],
           JWTRefreshSecret = getEnv env ''JWT_REFRESH_SECRET'' [],
           AccessTokenExpireMin = accessExp,
           RefreshTokenExpireHr = refreshExp \<rparr>)"

section \<open>Signed tokens\<close>

text \<open>
  The token library is outside the repository. Its model is symbolic: a compact token
  string is identified with the header algorithm, the claims and the signature it
  carries, any other string is malformed, and an HMAC is the term built from the hash,
  the key and the signed input, so that two signatures agree exactly when these agree.
  JSON numbers are restricted to integers.
\<close>

datatype json = JString string | JNumber int | JBool bool | JNull

type_synonym MapClaims = "(string \<times> json) list"

datatype hash_alg = SHA256 | SHA384 | SHA512

datatype signing_method =
    SigningMethodHMAC hash_alg
  | SigningMethodRSA hash_alg
  | SigningMethodRSAPSS hash_alg
  | SigningMethodECDSA hash_alg
  | SigningMethodEd25519
  | SigningMethodNone

datatype signature = HMAC hash_alg string string MapClaims | RawSignature string

datatype token_string = Compact string MapClaims signature | Malformed string

datatype jwt_error =
    ErrTokenMalformed
  | ErrTokenUnverifiable
  | ErrTokenSignatureInvalid
  | ErrSignatureInvalid
  | ErrTokenExpired
  | ErrTokenNotValidYet
  | ErrInvalidType
  | ErrInvalidKeyType

fun Alg :: "signing_method \<Rightarrow> string" where
  "Alg (SigningMethodHMAC SHA256) = ''HS256''"
| "Alg (SigningMethodHMAC SHA384) = ''HS384''"
| "Alg (SigningMethodHMAC SHA512) = ''HS512''"
| "Alg (SigningMethodRSA SHA256) = ''RS256''"
| "Alg (SigningMethodRSA SHA384) = ''RS384''"
| "Alg (SigningMethodRSA SHA512) = ''RS512''"
| "Alg (SigningMethodRSAPSS SHA256) = ''PS256''"
| "Alg (SigningMethodRSAPSS SHA384) = ''PS384''"
| "Alg (SigningMethodRSAPSS SHA512) = ''PS512''"
| "Alg (SigningMethodECDSA SHA256) = ''ES256''"
| "Alg (SigningMethodECDSA SHA384) = ''ES384''"
| "Alg (SigningMethodECDSA SHA512) = ''ES512''"
| "Alg SigningMethodEd25519 = ''EdDSA''"
| "Alg SigningMethodNone = ''none''"

definition registered_methods :: "signing_method list" where
  "registered_methods =
     [SigningMethodHMAC SHA256, SigningMethodHMAC SHA384, SigningMethodHMAC SHA512,
      SigningMethodRSA SHA256, SigningMethodRSA SHA384, SigningMethodRSA SHA512,
      SigningMethodRSAPSS SHA256, SigningMethodRSAPSS SHA384, SigningMethodRSAPSS SHA512,
      SigningMethodECDSA SHA256, SigningMethodECDSA SHA384, SigningMethodECDSA SHA512,
      SigningMethodEd25519, SigningMethodNone]"

definition GetSigningMethod :: "string \<Rightarrow> signing_method option" where
  "GetSigningMethod alg = find (\<lambda>m. Alg m = alg) registered_methods"

text \<open>A JSON object read into a Go map keeps the last value of a repeated key.\<close>

definition claim :: "MapClaims \<Rightarrow> string \<Rightarrow> json option" where
  "claim claims key = map_of (rev claims) key"

text \<open>The type assertion \<open>claims[key].(string)\<close>.\<close>

definition claim_string :: "MapClaims \<Rightarrow> string \<Rightarrow> string option" where
  "claim_string claims key =
     (case claim claims key of Some (JString s) \<Rightarrow> Some s | _ \<Rightarrow> None)"

definition SignedString :: "signing_method \<Rightarrow> MapClaims \<Rightarrow> string \<Rightarrow> jwt_error + token_string" where
  "SignedString m claims key =
     (case m of
        SigningMethodHMAC h \<Rightarrow> Inr (Compact (Alg m) claims (HMAC h key (Alg m) claims))
      | _ \<Rightarrow> Inl ErrInvalidKeyType)"

definition Verify :: "signing_method \<Rightarrow> string \<Rightarrow> string \<Rightarrow> MapClaims \<Rightarrow> signature \<Rightarrow> bool" where
  "Verify m key alg claims sg =
     (case m of
        SigningMethodHMAC h \<Rightarrow> sg = HMAC h key alg claims
      | _ \<Rightarrow> False)"

text \<open>
  The numeric date of a claim: absent, or a number (0 counts as absent), in seconds;
  anything else is a type error.
\<close>

definition parseNumericDate :: "MapClaims \<Rightarrow> string \<Rightarrow> jwt_error + time option" where
  "parseNumericDate claims key =
     (case claim claims key of
        None \<Rightarrow> Inr None
      | Some (JNumber n) \<Rightarrow> (if n = 0 then Inr None else Inr (Some (n * 1000000000)))
      | Some _ \<Rightarrow> Inl ErrInvalidType)"

definition Validate :: "MapClaims \<Rightarrow> time \<Rightarrow> jwt_error option" where
  "Validate claims now =
     (case parseNumericDate claims ''exp'' of
        Inl e \<Rightarrow> Some e
      | Inr exp \<Rightarrow>
          if (case exp of None \<Rightarrow> False | Some t \<Rightarrow> \<not> now < t) then Some ErrTokenExpired
          else (case parseNumericDate claims ''nbf'' of
                  Inl e \<Rightarrow> Some e
                | Inr nbf \<Rightarrow>
                    if (case nbf of None \<Rightarrow> False | Some t \<Rightarrow> now < t)
                    then Some ErrTokenNotValidYet else None))"

text \<open>
  \<open>jwt.Parse\<close>: decode, find the method of the header, ask the callback for the key,
  verify the signature, validate the claims. With no error the token is valid and its
  claims are a \<open>MapClaims\<close>, so the result is the claims.
\<close>

definition jwt_Parse ::
  "token_string \<Rightarrow> (signing_method \<Rightarrow> jwt_error + string) \<Rightarrow> time \<Rightarrow> jwt_error + MapClaims" where
  "jwt_Parse tokenStr keyFunc now =
     (case tokenStr of
        Malformed _ \<Rightarrow> Inl ErrTokenMalformed
      | Compact alg claims sg \<Rightarrow>
          (case GetSigningMethod alg of
             None \<Rightarrow> Inl ErrTokenUnverifiable
           | Some m \<Rightarrow>
               (case keyFunc m of
                  Inl e \<Rightarrow> Inl ErrTokenUnverifiable
                | Inr key \<Rightarrow>
                    if \<not> Verify m key alg claims sg then Inl ErrTokenSignatureInvalid
                    else (case Validate claims now of
                            Some e \<Rightarrow> Inl e
                          | None \<Rightarrow> Inr claims))))"

section \<open>The refresh token collection\<close>

text \<open>
  A document of the collection: the fields of \<open>models.RefreshToken\<close> and the
  \<open>updated_at\<close> field that the updates set. An \<open>ObjectID\<close> is a number, 0 the
  zero value; the driver gives a document inserted with the zero value the next
  identifier of a counter. The collection keeps its documents in insertion order and
  \<open>FindOne\<close> takes the first match. A driver call that fails has no effect.
\<close>

record RefreshToken =
  ID :: nat
  UserID :: string
  Token :: token_string
  ExpiresAt :: time
  CreatedAt :: time
  Revoked :: bool
  UpdatedAt :: "time option"

record TokenPair =
  AccessToken :: token_string
  RefreshToken :: token_string

record collection =
  docs :: "RefreshToken list"
  next_oid :: nat

datatype driver_error = ConnectionError | DuplicateKey | ErrNoDocuments

datatype repo_error = ErrRefreshTokenNotFound | ErrInvalidHex | DriverError driver_error

text \<open>Which driver calls fail during one call of the service or the repository.\<close>

record faults =
  insert_fails :: bool
  find_fails :: bool
  update_fails :: bool
  delete_fails :: bool

definition no_faults :: faults where
  "no_faults = \<lparr> insert_fails = False, find_fails = False, update_fails = False,
                  delete_fails = False \<rparr>"

datatype hex_string = HexOf nat | BadHex string

definition Hex :: "nat \<Rightarrow> hex_string" where
  "Hex i = HexOf i"

definition ObjectIDFromHex :: "hex_string \<Rightarrow> repo_error + nat" where
  "ObjectIDFromHex h = (case h of HexOf i \<Rightarrow> Inr i | BadHex _ \<Rightarrow> Inl ErrInvalidHex)"

definition InsertOne :: "bool \<Rightarrow> collection \<Rightarrow> RefreshToken \<Rightarrow> collection \<times> driver_error option" where
  "InsertOne fails c d =
     (if fails then (c, Some ConnectionError)
      else if ID d = 0
        then (c\<lparr>docs := docs c @ [d\<lparr>ID := next_oid c\<rparr>], next_oid := Suc (next_oid c)\<rparr>, None)
      else if ID d \<in> set (map ID (docs c)) then (c, Some DuplicateKey)
      else (c\<lparr>docs := docs c @ [d], next_oid := max (next_oid c) (Suc (ID d))\<rparr>, None))"

definition FindOne :: "bool \<Rightarrow> collection \<Rightarrow> (RefreshToken \<Rightarrow> bool) \<Rightarrow> driver_error + RefreshToken" where
  "FindOne fails c flt =
     (if fails then Inl ConnectionError
      else (case find flt (docs c) of None \<Rightarrow> Inl ErrNoDocuments | Some d \<Rightarrow> Inr d))"

definition UpdateMany ::
  "bool \<Rightarrow> collection \<Rightarrow> (RefreshToken \<Rightarrow> bool) \<Rightarrow> (RefreshToken \<Rightarrow> RefreshToken)
     \<Rightarrow> collection \<times> driver_error option" where
  "UpdateMany fails c flt upd =
     (if fails then (c, Some ConnectionError)
      else (c\<lparr>docs := map (\<lambda>d. if flt d then upd d else d) (docs c)\<rparr>, None))"

fun update_first :: "('a \<Rightarrow> bool) \<Rightarrow> ('a \<Rightarrow> 'a) \<Rightarrow> 'a list \<Rightarrow> 'a list" where
  "update_first flt upd [] = []"
| "update_first flt upd (d # ds) =
     (if flt d then upd d # ds else d # update_first flt upd ds)"

text \<open>\<open>UpdateOne\<close> gives the number of documents matched (0 or 1) or an error.\<close>

definition UpdateOne ::
  "bool \<Rightarrow> collection \<Rightarrow> (RefreshToken \<Rightarrow> bool) \<Rightarrow> (RefreshToken \<Rightarrow> RefreshToken)
     \<Rightarrow> collection \<times> (driver_error + nat)" where
  "UpdateOne fails c flt upd =
     (if fails then (c, Inl ConnectionError)
      else (c\<lparr>docs := update_first flt upd (docs c)\<rparr>,
            Inr (if list_ex flt (docs c) then 1 else 0)))"

definition DeleteMany :: "bool \<Rightarrow> collection \<Rightarrow> (RefreshToken \<Rightarrow> bool) \<Rightarrow> collection \<times> driver_error option" where
  "DeleteMany fails c flt =
     (if fails then (c, Some ConnectionError)
      else (c\<lparr>docs := filter (\<lambda>d. \<not> flt d) (docs c)\<rparr>, None))"

subsection \<open>The repository\<close>

text \<open>The update document of both revocations: \<open>revoked\<close> true, \<open>updated_at\<close> now.\<close>

definition revoke_update :: "time \<Rightarrow> RefreshToken \<Rightarrow> RefreshToken" where
  "revoke_update now d = d\<lparr>Revoked := True, UpdatedAt := Some now\<rparr>"

definition Create :: "faults \<Rightarrow> collection \<Rightarrow> RefreshToken \<Rightarrow> collection \<times> repo_error option" where
  "Create f c token =
     (case InsertOne (insert_fails f) c token of
        (c', None) \<Rightarrow> (c', None)
      | (c', Some e) \<Rightarrow> (c', Some (DriverError e)))"

definition FindByToken :: "faults \<Rightarrow> collection \<Rightarrow> token_string \<Rightarrow> string \<Rightarrow> repo_error + RefreshToken" where
  "FindByToken f c token userID =
     (case FindOne (find_fails f) c (\<lambda>d. Token d = token \<and> UserID d = userID) of
        Inl e \<Rightarrow> (if e = ErrNoDocuments then Inl ErrRefreshTokenNotFound else Inl (DriverError e))
      | Inr refreshToken \<Rightarrow> Inr refreshToken)"

definition RevokeUserTokens :: "faults \<Rightarrow> time \<Rightarrow> collection \<Rightarrow> string \<Rightarrow> collection \<times> repo_error option" where
  "RevokeUserTokens f now c userID =
     (case UpdateMany (update_fails f) c (\<lambda>d. UserID d = userID \<and> Revoked d = False)
             (revoke_update now) of
        (c', None) \<Rightarrow> (c', None)
      | (c', Some e) \<Rightarrow> (c', Some (DriverError e)))"

definition RevokeToken :: "faults \<Rightarrow> time \<Rightarrow> collection \<Rightarrow> hex_string \<Rightarrow> collection \<times> repo_error option" where
  "RevokeToken f now c tokenID =
     (case ObjectIDFromHex tokenID of
        Inl e \<Rightarrow> (c, Some e)
      | Inr objectID \<Rightarrow>
          (case UpdateOne (update_fails f) c (\<lambda>d. ID d = objectID)
                  (revoke_update now) of
             (c', Inl e) \<Rightarrow> (c', Some (DriverError e))
           | (c', Inr MatchedCount) \<Rightarrow>
               if MatchedCount = 0 then (c', Some ErrRefreshTokenNotFound) else (c', None)))"

definition CleanupExpired :: "faults \<Rightarrow> time \<Rightarrow> collection \<Rightarrow> collection \<times> repo_error option" where
  "CleanupExpired f now c =
     (case DeleteMany (delete_fails f) c (\<lambda>d. ExpiresAt d < now) of
        (c', None) \<Rightarrow> (c', None)
      | (c', Some e) \<Rightarrow> (c', Some (DriverError e)))"

section \<open>The token service\<close>

datatype error =
    ErrInvalidToken
  | ErrInvalidToken_wrapping jwt_error
  | ErrRevokedToken
  | SigningFailed jwt_error
  | StoreRefreshTokenFailed repo_error
  | FetchRefreshTokenFailed repo_error
  | RepositoryError repo_error

text \<open>\<open>errors.Is(err, ErrInvalidToken)\<close>: the error itself or an error wrapping it.\<close>

fun Is_ErrInvalidToken :: "error \<Rightarrow> bool" where
  "Is_ErrInvalidToken ErrInvalidToken = True"
| "Is_ErrInvalidToken (ErrInvalidToken_wrapping e) = True"
| "Is_ErrInvalidToken e = False"

record TokenService =
  cfg :: Config
  refreshTokenRepo :: collection

definition NewTokenService :: "Config \<Rightarrow> collection \<Rightarrow> TokenService" where
  "NewTokenService c r = \<lparr> cfg = c, refreshTokenRepo = r \<rparr>"

definition accessClaims :: "TokenService \<Rightarrow> time \<Rightarrow> string \<Rightarrow> MapClaims" where
  "accessClaims ts now userID =
     [(''sub'', JString userID),
      (''exp'', JNumber (Unix (Add now (Duration_mul Minute (AccessTokenExpireMin (cfg ts)))))),
      (''typ'', JString ''access'')]"

definition refreshClaims :: "TokenService \<Rightarrow> time \<Rightarrow> string \<Rightarrow> MapClaims" where
  "refreshClaims ts now userID =
     [(''sub'', JString userID),
      (''exp'', JNumber (Unix (Add now (Duration_mul Hour (RefreshTokenExpireHr (cfg ts)))))),
      (''typ'', JString ''refresh'')]"

definition GenerateTokenPair ::
  "faults \<Rightarrow> time \<Rightarrow> TokenService \<Rightarrow> string \<Rightarrow> TokenService \<times> (error + TokenPair)" where
  "GenerateTokenPair f now ts userID =
     (case SignedString (SigningMethodHMAC SHA256) (accessClaims ts now userID)
             (JWTAccessSecret (cfg ts)) of
        Inl err \<Rightarrow> (ts, Inl (SigningFailed err))
      | Inr accessStr \<Rightarrow>
          (case SignedString (SigningMethodHMAC SHA256) (refreshClaims ts now userID)
                  (JWTRefreshSecret (cfg ts)) of
             Inl err \<Rightarrow> (ts, Inl (SigningFailed err))
           | Inr refreshStr \<Rightarrow>
               (let refreshTokenDoc =
                      \<lparr> ID = 0, UserID = userID, Token = refreshStr,
                        ExpiresAt = Add now (Duration_mul Hour (RefreshTokenExpireHr (cfg ts))),
                        CreatedAt = now, Revoked = False, UpdatedAt = None \<rparr>
                in case Create f (refreshTokenRepo ts) refreshTokenDoc of
                     (c', Some err) \<Rightarrow>
                       (ts\<lparr>refreshTokenRepo := c'\<rparr>, Inl (StoreRefreshTokenFailed err))
                   | (c', None) \<Rightarrow>
                       (ts\<lparr>refreshTokenRepo := c'\<rparr>,
                        Inr \<lparr> AccessToken = accessStr, RefreshToken = refreshStr \<rparr>))))"

text \<open>The key callback of both parsers: a key for the HMAC methods only.\<close>

definition keyFunc :: "string \<Rightarrow> signing_method \<Rightarrow> jwt_error + string" where
  "keyFunc secret m =
     (case m of SigningMethodHMAC h \<Rightarrow> Inr secret | _ \<Rightarrow> Inl ErrSignatureInvalid)"

definition ValidateAccessToken :: "time \<Rightarrow> TokenService \<Rightarrow> token_string \<Rightarrow> error + string" where
  "ValidateAccessToken now ts tokenStr =
     (case jwt_Parse tokenStr (keyFunc (JWTAccessSecret (cfg ts))) now of
        Inl err \<Rightarrow> Inl (ErrInvalidToken_wrapping err)
      | Inr claims \<Rightarrow>
          (case claim_string claims ''typ'' of
             None \<Rightarrow> Inl ErrInvalidToken
           | Some typ \<Rightarrow>
               if typ \<noteq> ''access'' then Inl ErrInvalidToken
               else (case claim_string claims ''sub'' of
                       None \<Rightarrow> Inl ErrInvalidToken
                     | Some userID \<Rightarrow>
                         if userID = [] then Inl ErrInvalidToken else Inr userID)))"

definition RevokeRefreshTokens ::
  "faults \<Rightarrow> time \<Rightarrow> TokenService \<Rightarrow> string \<Rightarrow> TokenService \<times> repo_error option" where
  "RevokeRefreshTokens f now ts userID =
     (case RevokeUserTokens f now (refreshTokenRepo ts) userID of
        (c', r) \<Rightarrow> (ts\<lparr>refreshTokenRepo := c'\<rparr>, r))"

text \<open>
  Step 1 of \<open>UseRefreshToken\<close>: the signature and the claims of the refresh token,
  giving the subject.
\<close>

definition validateRefreshJWT :: "time \<Rightarrow> TokenService \<Rightarrow> token_string \<Rightarrow> error + string" where
  "validateRefreshJWT now ts refreshToken =
     (case jwt_Parse refreshToken (keyFunc (JWTRefreshSecret (cfg ts))) now of
        Inl err \<Rightarrow> Inl (ErrInvalidToken_wrapping err)
      | Inr claims \<Rightarrow>
          (case claim_string claims ''typ'' of
             None \<Rightarrow> Inl ErrInvalidToken
           | Some typ \<Rightarrow>
               if typ \<noteq> ''refresh'' then Inl ErrInvalidToken
               else (case claim_string claims ''sub'' of
                       None \<Rightarrow> Inl ErrInvalidToken
                     | Some userID \<Rightarrow>
                         if userID = [] then Inl ErrInvalidToken else Inr userID)))"

text \<open>
  Steps 2 to 5: the lookup, the revocation check before the expiry check, the revoke
  write whose error is dropped, and the new pair.
\<close>

definition UseRefreshToken ::
  "faults \<Rightarrow> time \<Rightarrow> TokenService \<Rightarrow> token_string \<Rightarrow> TokenService \<times> (error + TokenPair)" where
  "UseRefreshToken f now ts refreshToken =
     (case validateRefreshJWT now ts refreshToken of
        Inl err \<Rightarrow> (ts, Inl err)
      | Inr userID \<Rightarrow>
          (case FindByToken f (refreshTokenRepo ts) refreshToken userID of
             Inl err \<Rightarrow>
               if err = ErrRefreshTokenNotFound then (ts, Inl ErrInvalidToken)
               else (ts, Inl (FetchRefreshTokenFailed err))
           | Inr stored \<Rightarrow>
               if Revoked stored then (ts, Inl ErrRevokedToken)
               else if After now (ExpiresAt stored) then
                 (ts\<lparr>refreshTokenRepo :=
                       fst (RevokeToken f now (refreshTokenRepo ts) (Hex (ID stored)))\<rparr>,
                  Inl ErrInvalidToken)
               else
                 GenerateTokenPair f now
                   (ts\<lparr>refreshTokenRepo :=
                         fst (RevokeToken f now (refreshTokenRepo ts) (Hex (ID stored)))\<rparr>)
                   userID))"

definition CleanupExpiredRefreshTokens ::
  "faults \<Rightarrow> time \<Rightarrow> TokenService \<Rightarrow> TokenService \<times> repo_error option" where
  "CleanupExpiredRefreshTokens f now ts =
     (case CleanupExpired f now (refreshTokenRepo ts) of
        (c', r) \<Rightarrow> (ts\<lparr>refreshTokenRepo := c'\<rparr>, r))"

section \<open>Calls and well-formed collections\<close>

text \<open>
  Every operation of the service and of the repository as one call, and the state of
  the service after it.
\<close>

datatype call =
    Call_GenerateTokenPair string
  | Call_ValidateAccessToken token_string
  | Call_RevokeRefreshTokens string
  | Call_UseRefreshToken token_string
  | Call_CleanupExpiredRefreshTokens
  | Repo_Create RefreshToken
  | Repo_FindByToken token_string string
  | Repo_RevokeUserTokens string
  | Repo_RevokeToken hex_string
  | Repo_CleanupExpired

fun exec :: "faults \<Rightarrow> time \<Rightarrow> TokenService \<Rightarrow> call \<Rightarrow> TokenService" where
  "exec f now ts (Call_GenerateTokenPair userID) = fst (GenerateTokenPair f now ts userID)"
| "exec f now ts (Call_ValidateAccessToken tokenStr) = ts"
| "exec f now ts (Call_RevokeRefreshTokens userID) = fst (RevokeRefreshTokens f now ts userID)"
| "exec f now ts (Call_UseRefreshToken refreshToken) = fst (UseRefreshToken f now ts refreshToken)"
| "exec f now ts Call_CleanupExpiredRefreshTokens = fst (CleanupExpiredRefreshTokens f now ts)"
| "exec f now ts (Repo_Create token) =
     ts\<lparr>refreshTokenRepo := fst (Create f (refreshTokenRepo ts) token)\<rparr>"
| "exec f now ts (Repo_FindByToken token userID) = ts"
| "exec f now ts (Repo_RevokeUserTokens userID) =
     ts\<lparr>refreshTokenRepo := fst (RevokeUserTokens f now (refreshTokenRepo ts) userID)\<rparr>"
| "exec f now ts (Repo_RevokeToken tokenID) =
     ts\<lparr>refreshTokenRepo := fst (RevokeToken f now (refreshTokenRepo ts) tokenID)\<rparr>"
| "exec f now ts Repo_CleanupExpired =
     ts\<lparr>refreshTokenRepo := fst (CleanupExpired f now (refreshTokenRepo ts))\<rparr>"

text \<open>
  The database keeps the identifiers of a collection distinct; the identifiers given
  out so far are below the counter.
\<close>

definition wf_collection :: "collection \<Rightarrow> bool" where
  "wf_collection c =
     (distinct (map ID (docs c)) \<and> 0 < next_oid c
      \<and> list_all (\<lambda>d. 0 < ID d \<and> ID d < next_oid c) (docs c))"

definition empty_collection :: collection where
  "empty_collection = \<lparr> docs = [], next_oid = 1 \<rparr>"

text \<open>
  Notions of the proofs: the HS256 token of some claims under a key, and the document
  that \<open>GenerateTokenPair\<close> stores.
\<close>

definition hs256 :: "string \<Rightarrow> MapClaims \<Rightarrow> token_string" where
  "hs256 key claims = Compact ''HS256'' claims (HMAC SHA256 key ''HS256'' claims)"

definition issued_doc :: "TokenService \<Rightarrow> time \<Rightarrow> string \<Rightarrow> RefreshToken" where
  "issued_doc ts now userID =
     \<lparr> ID = next_oid (refreshTokenRepo ts), UserID = userID,
       Token = hs256 (JWTRefreshSecret (cfg ts)) (refreshClaims ts now userID),
       ExpiresAt = Add now (Duration_mul Hour (RefreshTokenExpireHr (cfg ts))),
       CreatedAt = now, Revoked = False, UpdatedAt = None \<rparr>"

definition revoke_doc :: "string \<Rightarrow> time \<Rightarrow> RefreshToken \<Rightarrow> RefreshToken" where
  "revoke_doc userID now d =
     (if UserID d = userID \<and> Revoked d = False then revoke_update now d else d)"

subsection \<open>Examples\<close>

definition example_cfg :: Config where
  "example_cfg =
     \<lparr> Port = ''5000'', MongoURI = ''mongodb://db'', GinMode = ''debug'',
       DatabaseName = ''magic'', BackendServerURI = [],
       JWTAccessSecret = ''access-secret'', JWTRefreshSecret = ''refresh-secret'',
       AccessTokenExpireMin = 15, RefreshTokenExpireHr = 168 \<rparr>"

definition example_service :: TokenService where
  "example_service = NewTokenService example_cfg empty_collection"

definition example_refresh :: token_string where
  "example_refresh =
     hs256 ''refresh-secret''
       [(''sub'', JString ''u1''), (''exp'', JNumber 604800), (''typ'', JString ''refresh'')]"

definition example_access :: token_string where
  "example_access =
     hs256 ''access-secret''
       [(''sub'', JString ''u1''), (''exp'', JNumber 900), (''typ'', JString ''access'')]"

definition example_issued :: TokenService where
  "example_issued =
     \<lparr> cfg = example_cfg,
       refreshTokenRepo =
         \<lparr> docs = [\<lparr> ID = 1, UserID = ''u1'', Token = example_refresh,
                     ExpiresAt = 604800500000000, CreatedAt = 500000000,
                     Revoked = False, UpdatedAt = None \<rparr>],
           next_oid = 2 \<rparr> \<rparr>"

definition example_docs :: "RefreshToken list" where
  "example_docs =
     [\<lparr> ID = 1, UserID = ''u1'', Token = Malformed ''t1'', ExpiresAt = 5, CreatedAt = 0,
        Revoked = False, UpdatedAt = None \<rparr>,
      \<lparr> ID = 2, UserID = ''u2'', Token = Malformed ''t2'', ExpiresAt = 20, CreatedAt = 0,
        Revoked = True, UpdatedAt = Some 3 \<rparr>,
      \<lparr> ID = 3, UserID = ''u1'', Token = Malformed ''t3'', ExpiresAt = 10, CreatedAt = 0,
        Revoked = False, UpdatedAt = None \<rparr>]"

definition example_store :: TokenService where
  "example_store = \<lparr> cfg = example_cfg, refreshTokenRepo = \<lparr> docs = example_docs, next_oid = 4 \<rparr> \<rparr>"



section \<open>Lemmas\<close>

subsection \<open>Lists of documents\<close>

lemma update_first_ids:
  "(\<And>d. ID (upd d) = ID d) \<Longrightarrow> map ID (update_first flt upd xs) = map ID xs"
  by (induction xs) auto

lemma update_first_set:
  "d' \<in> set (update_first flt upd xs) \<Longrightarrow> d' \<in> set xs \<or> (\<exists>d \<in> set xs. flt d \<and> d' = upd d)"
  by (induction xs) (auto split: if_splits)



lemma distinct_ids_eq:
  "distinct (map ID xs) \<Longrightarrow> d \<in> set xs \<Longrightarrow> d' \<in> set xs \<Longrightarrow> ID d' = ID d \<Longrightarrow> d' = d"
  by (meson distinct_map inj_onD)

subsection \<open>Signing and the driver calls\<close>

lemma SignedString_hs256:
  "SignedString (SigningMethodHMAC SHA256) claims key = Inr (hs256 key claims)"
  by (simp add: SignedString_def hs256_def)

lemma Create_zero:
  "ID d = 0 \<Longrightarrow> Create f c d =
     (if insert_fails f then (c, Some (DriverError ConnectionError))
      else (c\<lparr>docs := docs c @ [d\<lparr>ID := next_oid c\<rparr>], next_oid := Suc (next_oid c)\<rparr>, None))"
  by (simp add: Create_def InsertOne_def)

lemma GenerateTokenPair_eq:
  "GenerateTokenPair f now ts userID =
     (if insert_fails f then (ts, Inl (StoreRefreshTokenFailed (DriverError ConnectionError)))
      else (ts\<lparr>refreshTokenRepo :=
                 (refreshTokenRepo ts)\<lparr>docs := docs (refreshTokenRepo ts) @ [issued_doc ts now userID],
                                       next_oid := Suc (next_oid (refreshTokenRepo ts))\<rparr>\<rparr>,
            Inr \<lparr> AccessToken = hs256 (JWTAccessSecret (cfg ts)) (accessClaims ts now userID),
                  RefreshToken = hs256 (JWTRefreshSecret (cfg ts)) (refreshClaims ts now userID) \<rparr>))"
  by (simp add: GenerateTokenPair_def SignedString_hs256 Create_zero issued_doc_def)

lemma RevokeToken_Hex:
  "RevokeToken f now c (Hex i) =
     (if update_fails f then (c, Some (DriverError ConnectionError))
      else (c\<lparr>docs := update_first (\<lambda>d. ID d = i) (revoke_update now) (docs c)\<rparr>,
            if list_ex (\<lambda>d. ID d = i) (docs c) then None else Some ErrRefreshTokenNotFound))"
  by (simp add: RevokeToken_def Hex_def ObjectIDFromHex_def UpdateOne_def)

lemma RevokeToken_docs:
  "docs (fst (RevokeToken f now c h)) = docs c
   \<or> (\<exists>i. docs (fst (RevokeToken f now c h))
            = update_first (\<lambda>d. ID d = i) (revoke_update now) (docs c))"
  by (cases h) (auto simp add: RevokeToken_def ObjectIDFromHex_def UpdateOne_def)

lemma RevokeUserTokens_ok:
  "\<not> update_fails f \<Longrightarrow> RevokeUserTokens f now c userID =
     (c\<lparr>docs := map (revoke_doc userID now) (docs c)\<rparr>, None)"
  by (simp add: RevokeUserTokens_def UpdateMany_def revoke_doc_def)

lemma RevokeUserTokens_docs:
  "docs (fst (RevokeUserTokens f now c userID)) = docs c
   \<or> docs (fst (RevokeUserTokens f now c userID)) = map (revoke_doc userID now) (docs c)"
  by (simp add: RevokeUserTokens_def UpdateMany_def revoke_doc_def)

lemma revoke_doc_revoked:
  "UserID (revoke_doc userID now d) = userID \<Longrightarrow> Revoked (revoke_doc userID now d)"
  by (simp add: revoke_doc_def revoke_update_def split: if_splits)

lemma revoke_doc_idem: "revoke_doc userID now2 (revoke_doc userID now d) = revoke_doc userID now d"
  by (simp add: revoke_doc_def revoke_update_def)

lemma revoke_doc_ID: "ID (revoke_doc userID now d) = ID d"
  by (simp add: revoke_doc_def revoke_update_def)

lemma revoke_doc_mono: "Revoked d \<Longrightarrow> Revoked (revoke_doc userID now d)"
  by (simp add: revoke_doc_def)

lemma keyFunc_non_hmac:
  "\<forall>h. m \<noteq> SigningMethodHMAC h \<Longrightarrow> keyFunc secret m = Inl ErrSignatureInvalid"
  by (cases m) (simp_all add: keyFunc_def)

lemma jwt_Parse_non_hmac:
  assumes "\<forall>h. GetSigningMethod alg \<noteq> Some (SigningMethodHMAC h)"
  shows "jwt_Parse (Compact alg claims sg) (keyFunc secret) now = Inl ErrTokenUnverifiable"
proof (cases "GetSigningMethod alg")
  case None
  then show ?thesis by (simp add: jwt_Parse_def)
next
  case (Some m)
  with assms have "\<forall>h. m \<noteq> SigningMethodHMAC h" by simp
  then have "keyFunc secret m = Inl ErrSignatureInvalid" by (rule keyFunc_non_hmac)
  with Some show ?thesis by (simp add: jwt_Parse_def)
qed

lemma GetSigningMethod_none: "GetSigningMethod ''none'' = Some SigningMethodNone"
  by (simp add: GetSigningMethod_def registered_methods_def)

lemma GetSigningMethod_HS256: "GetSigningMethod ''HS256'' = Some (SigningMethodHMAC SHA256)"
  by (simp add: GetSigningMethod_def registered_methods_def)

subsection \<open>Well-formed collections\<close>

lemma wf_empty: "wf_collection empty_collection"
  by (simp add: wf_collection_def empty_collection_def)

lemma wf_same_ids:
  assumes "wf_collection c" and "map ID ys = map ID (docs c)"
  shows "wf_collection (c\<lparr>docs := ys\<rparr>)"
proof -
  have "set (map ID ys) = set (map ID (docs c))" using assms(2) by simp
  then have eq: "ID ` set ys = ID ` set (docs c)" by simp
  have "0 < ID d \<and> ID d < next_oid c" if "d \<in> set ys" for d
  proof -
    from that eq have "ID d \<in> ID ` set (docs c)" by blast
    then obtain d0 where "d0 \<in> set (docs c)" and "ID d0 = ID d" by auto
    with assms(1) show ?thesis by (auto simp add: wf_collection_def list_all_iff)
  qed
  then show ?thesis
    using assms by (simp add: wf_collection_def list_all_iff)
qed

lemma wf_InsertOne: "wf_collection c \<Longrightarrow> wf_collection (fst (InsertOne fails c d))"
  by (auto simp add: wf_collection_def InsertOne_def list_all_iff less_Suc_eq max_def)

lemma fst_Create: "fst (Create f c d) = fst (InsertOne (insert_fails f) c d)"
  by (simp add: Create_def split: prod.splits option.splits)

lemma wf_Create: "wf_collection c \<Longrightarrow> wf_collection (fst (Create f c d))"
  by (simp add: fst_Create wf_InsertOne)

lemma revoke_update_ID: "ID (revoke_update now d) = ID d"
  by (simp add: revoke_update_def)

lemma wf_RevokeToken: "wf_collection c \<Longrightarrow> wf_collection (fst (RevokeToken f now c h))"
proof (cases h)
  case (HexOf i)
  assume wf: "wf_collection c"
  have "map ID (update_first (\<lambda>d. ID d = i) (revoke_update now) (docs c)) = map ID (docs c)"
    by (rule update_first_ids) (rule revoke_update_ID)
  then have "wf_collection (c\<lparr>docs := update_first (\<lambda>d. ID d = i) (revoke_update now) (docs c)\<rparr>)"
    using wf by (rule wf_same_ids [rotated])
  with wf HexOf show ?thesis
    by (simp add: RevokeToken_def ObjectIDFromHex_def UpdateOne_def)
next
  case (BadHex s)
  assume "wf_collection c"
  with BadHex show ?thesis by (simp add: RevokeToken_def ObjectIDFromHex_def)
qed

lemma wf_RevokeUserTokens:
  assumes "wf_collection c"
  shows "wf_collection (fst (RevokeUserTokens f now c userID))"
proof (cases "update_fails f")
  case True
  with assms show ?thesis by (simp add: RevokeUserTokens_def UpdateMany_def)
next
  case False
  have "map ID (map (revoke_doc userID now) (docs c)) = map ID (docs c)"
    by (simp add: revoke_doc_ID comp_def)
  then have "wf_collection (c\<lparr>docs := map (revoke_doc userID now) (docs c)\<rparr>)"
    using assms by (rule wf_same_ids [rotated])
  with False show ?thesis by (simp add: RevokeUserTokens_ok)
qed

lemma wf_CleanupExpired:
  "wf_collection c \<Longrightarrow> wf_collection (fst (CleanupExpired f now c))"
  by (auto simp add: wf_collection_def CleanupExpired_def DeleteMany_def list_all_iff
        distinct_map_filter)

lemma wf_GenerateTokenPair:
  assumes "wf_collection (refreshTokenRepo ts)"
  shows "wf_collection (refreshTokenRepo (fst (GenerateTokenPair f now ts userID)))"
  using assms
  by (auto simp add: GenerateTokenPair_eq wf_collection_def issued_doc_def list_all_iff less_Suc_eq)

lemma UseRefreshToken_state:
  "fst (UseRefreshToken f now ts tok) = ts
   \<or> (\<exists>h. fst (UseRefreshToken f now ts tok)
            = ts\<lparr>refreshTokenRepo := fst (RevokeToken f now (refreshTokenRepo ts) h)\<rparr>)
   \<or> (\<exists>h userID. fst (UseRefreshToken f now ts tok)
            = fst (GenerateTokenPair f now
                     (ts\<lparr>refreshTokenRepo := fst (RevokeToken f now (refreshTokenRepo ts) h)\<rparr>)
                     userID))"
  by (auto simp add: UseRefreshToken_def split: sum.splits)

lemma wf_UseRefreshToken:
  assumes "wf_collection (refreshTokenRepo ts)"
  shows "wf_collection (refreshTokenRepo (fst (UseRefreshToken f now ts tok)))"
proof -
  have r: "\<And>h. wf_collection (fst (RevokeToken f now (refreshTokenRepo ts) h))"
    using assms by (rule wf_RevokeToken)
  have g: "\<And>h u. wf_collection (refreshTokenRepo (fst (GenerateTokenPair f now
              (ts\<lparr>refreshTokenRepo := fst (RevokeToken f now (refreshTokenRepo ts) h)\<rparr>) u)))"
    by (rule wf_GenerateTokenPair) (simp add: r)
  from UseRefreshToken_state [of f now ts tok] show ?thesis
    using assms r g by (elim disjE exE) simp_all
qed

lemma wf_exec:
  assumes "wf_collection (refreshTokenRepo ts)"
  shows "wf_collection (refreshTokenRepo (exec f now ts c))"
proof (cases c)
  case (Call_GenerateTokenPair u)
  then show ?thesis using assms by (simp add: wf_GenerateTokenPair)
next
  case (Call_ValidateAccessToken t)
  then show ?thesis using assms by simp
next
  case (Call_RevokeRefreshTokens u)
  then show ?thesis using assms
    by (simp add: RevokeRefreshTokens_def wf_RevokeUserTokens split: prod.splits)
      (metis fst_conv wf_RevokeUserTokens)
next
  case (Call_UseRefreshToken t)
  then show ?thesis using assms by (simp add: wf_UseRefreshToken)
next
  case Call_CleanupExpiredRefreshTokens
  then show ?thesis using assms
    by (simp add: CleanupExpiredRefreshTokens_def split: prod.splits)
      (metis fst_conv wf_CleanupExpired)
next
  case (Repo_Create d)
  then show ?thesis using assms by (simp add: wf_Create)
next
  case (Repo_FindByToken t u)
  then show ?thesis using assms by simp
next
  case (Repo_RevokeUserTokens u)
  then show ?thesis using assms by (simp add: wf_RevokeUserTokens)
next
  case (Repo_RevokeToken h)
  then show ?thesis using assms by (simp add: wf_RevokeToken)
next
  case Repo_CleanupExpired
  then show ?thesis using assms by (simp add: wf_CleanupExpired)
qed

subsection \<open>Revoked documents stay revoked\<close>

lemma keeps_update_first:
  assumes "distinct (map ID xs)" and "d \<in> set xs" and "Revoked d"
    and "d' \<in> set (update_first flt (revoke_update now) xs)" and "ID d' = ID d"
  shows "Revoked d'"
proof -
  from update_first_set [OF assms(4)]
  consider "d' \<in> set xs" | d0 where "d0 \<in> set xs" and "d' = revoke_update now d0"
    by blast
  then show ?thesis
  proof cases
    case 1
    with assms have "d' = d" by (simp add: distinct_ids_eq)
    with assms(3) show ?thesis by simp
  next
    case 2
    then show ?thesis by (simp add: revoke_update_def)
  qed
qed

lemma keeps_revoke_doc:
  assumes "distinct (map ID xs)" and "d \<in> set xs" and "Revoked d"
    and "d' \<in> set (map (revoke_doc userID now) xs)" and "ID d' = ID d"
  shows "Revoked d'"
proof -
  from assms(4) obtain d0 where d0: "d0 \<in> set xs" and d': "d' = revoke_doc userID now d0"
    by auto
  with assms(5) have "ID d0 = ID d" by (simp add: revoke_doc_ID)
  with assms(1,2) d0 have "d0 = d" by (simp add: distinct_ids_eq)
  with assms(3) d' show ?thesis by (simp add: revoke_doc_mono)
qed

lemma keeps_same:
  assumes "wf_collection c" and "d \<in> set (docs c)" and "Revoked d"
    and "d' \<in> set (docs c)" and "ID d' = ID d"
  shows "Revoked d'"
proof -
  have "distinct (map ID (docs c))" using assms(1) by (simp add: wf_collection_def)
  then have "d' = d" using assms(2,4,5) by (rule distinct_ids_eq)
  with assms(3) show ?thesis by simp
qed

lemma keeps_RevokeToken:
  assumes "wf_collection c" and "d \<in> set (docs c)" and "Revoked d"
    and "d' \<in> set (docs (fst (RevokeToken f now c h)))" and "ID d' = ID d"
  shows "Revoked d'"
proof -
  have dist: "distinct (map ID (docs c))" using assms(1) by (simp add: wf_collection_def)
  from RevokeToken_docs [of f now c h] show ?thesis
  proof
    assume "docs (fst (RevokeToken f now c h)) = docs c"
    with assms dist have "d' = d" by (simp add: distinct_ids_eq)
    with assms(3) show ?thesis by simp
  next
    assume "\<exists>i. docs (fst (RevokeToken f now c h))
                = update_first (\<lambda>d. ID d = i) (revoke_update now) (docs c)"
    then obtain i where "docs (fst (RevokeToken f now c h))
                = update_first (\<lambda>d. ID d = i) (revoke_update now) (docs c)" ..
    with assms(4) have "d' \<in> set (update_first (\<lambda>d. ID d = i) (revoke_update now) (docs c))"
      by simp
    with dist assms(2,3) show ?thesis using assms(5) by (rule keeps_update_first)
  qed
qed

lemma keeps_RevokeUserTokens:
  assumes "wf_collection c" and "d \<in> set (docs c)" and "Revoked d"
    and "d' \<in> set (docs (fst (RevokeUserTokens f now c userID)))" and "ID d' = ID d"
  shows "Revoked d'"
proof -
  have dist: "distinct (map ID (docs c))" using assms(1) by (simp add: wf_collection_def)
  from RevokeUserTokens_docs [of f now c userID] show ?thesis
  proof
    assume "docs (fst (RevokeUserTokens f now c userID)) = docs c"
    with assms dist have "d' = d" by (simp add: distinct_ids_eq)
    with assms(3) show ?thesis by simp
  next
    assume "docs (fst (RevokeUserTokens f now c userID)) = map (revoke_doc userID now) (docs c)"
    with assms(4) have "d' \<in> set (map (revoke_doc userID now) (docs c))" by simp
    with dist assms(2,3) show ?thesis using assms(5) by (rule keeps_revoke_doc)
  qed
qed

lemma keeps_CleanupExpired:
  assumes "wf_collection c" and "d \<in> set (docs c)" and "Revoked d"
    and "d' \<in> set (docs (fst (CleanupExpired f now c)))" and "ID d' = ID d"
  shows "Revoked d'"
proof -
  have dist: "distinct (map ID (docs c))" using assms(1) by (simp add: wf_collection_def)
  have "set (docs (fst (CleanupExpired f now c))) \<subseteq> set (docs c)"
    by (auto simp add: CleanupExpired_def DeleteMany_def)
  with assms(4) have "d' \<in> set (docs c)" by blast
  with assms dist have "d' = d" by (simp add: distinct_ids_eq)
  with assms(3) show ?thesis by simp
qed

lemma InsertOne_docs:
  "docs (fst (InsertOne fails c n)) = docs c
   \<or> (\<exists>n'. docs (fst (InsertOne fails c n)) = docs c @ [n'] \<and> ID n' \<notin> ID ` set (docs c)
            \<and> (ID n = 0 \<longrightarrow> n' = n\<lparr>ID := next_oid c\<rparr>) \<and> (ID n \<noteq> 0 \<longrightarrow> n' = n))"
  if "wf_collection c"
  using that by (auto simp add: InsertOne_def wf_collection_def list_all_iff)

lemma keeps_Create:
  assumes "wf_collection c" and "d \<in> set (docs c)" and "Revoked d"
    and "d' \<in> set (docs (fst (Create f c n)))" and "ID d' = ID d"
  shows "Revoked d'"
proof -
  have dist: "distinct (map ID (docs c))" using assms(1) by (simp add: wf_collection_def)
  have "d' \<in> set (docs c)"
  proof -
    from InsertOne_docs [OF assms(1), of "insert_fails f" n]
    show ?thesis
    proof
      assume "docs (fst (InsertOne (insert_fails f) c n)) = docs c"
      with assms(4) show ?thesis by (simp add: fst_Create)
    next
      assume "\<exists>n'. docs (fst (InsertOne (insert_fails f) c n)) = docs c @ [n']
                \<and> ID n' \<notin> ID ` set (docs c)
                \<and> (ID n = 0 \<longrightarrow> n' = n\<lparr>ID := next_oid c\<rparr>) \<and> (ID n \<noteq> 0 \<longrightarrow> n' = n)"
      then obtain n' where n': "docs (fst (InsertOne (insert_fails f) c n)) = docs c @ [n']"
        and fresh: "ID n' \<notin> ID ` set (docs c)" by blast
      from assms(4) n' have "d' \<in> set (docs c) \<or> d' = n'" by (auto simp add: fst_Create)
      moreover have "d' \<noteq> n'" using fresh assms(2,5) by auto
      ultimately show ?thesis by simp
    qed
  qed
  with assms dist have "d' = d" by (simp add: distinct_ids_eq)
  with assms(3) show ?thesis by simp
qed

lemma fst_GenerateTokenPair:
  "refreshTokenRepo (fst (GenerateTokenPair f now ts userID))
     = fst (Create f (refreshTokenRepo ts)
              \<lparr> ID = 0, UserID = userID,
                Token = hs256 (JWTRefreshSecret (cfg ts)) (refreshClaims ts now userID),
                ExpiresAt = Add now (Duration_mul Hour (RefreshTokenExpireHr (cfg ts))),
                CreatedAt = now, Revoked = False, UpdatedAt = None \<rparr>)"
  by (simp add: GenerateTokenPair_def SignedString_hs256 split: prod.splits option.splits)

lemma keeps_GenerateTokenPair:
  assumes "wf_collection (refreshTokenRepo ts)" and "d \<in> set (docs (refreshTokenRepo ts))"
    and "Revoked d"
    and "d' \<in> set (docs (refreshTokenRepo (fst (GenerateTokenPair f now ts userID))))"
    and "ID d' = ID d"
  shows "Revoked d'"
  using assms unfolding fst_GenerateTokenPair by (rule keeps_Create)

lemma RevokeToken_ids:
  "ID ` set (docs (fst (RevokeToken f now c h))) = ID ` set (docs c)"
proof -
  have "map ID (docs (fst (RevokeToken f now c h))) = map ID (docs c)"
    using RevokeToken_docs [of f now c h] update_first_ids [of "revoke_update now"]
    by (auto simp add: revoke_update_ID)
  then have "set (map ID (docs (fst (RevokeToken f now c h)))) = set (map ID (docs c))"
    by simp
  then show ?thesis by simp
qed

lemma keeps_UseRefreshToken:
  assumes wf: "wf_collection (refreshTokenRepo ts)" and d: "d \<in> set (docs (refreshTokenRepo ts))"
    and r: "Revoked d"
    and d': "d' \<in> set (docs (refreshTokenRepo (fst (UseRefreshToken f now ts tok))))"
    and eq: "ID d' = ID d"
  shows "Revoked d'"
proof -
  let ?c = "refreshTokenRepo ts"
  have dist: "distinct (map ID (docs ?c))" using wf by (simp add: wf_collection_def)
  from UseRefreshToken_state [of f now ts tok]
  consider "fst (UseRefreshToken f now ts tok) = ts"
    | h where "fst (UseRefreshToken f now ts tok)
                 = ts\<lparr>refreshTokenRepo := fst (RevokeToken f now ?c h)\<rparr>"
    | h u where "fst (UseRefreshToken f now ts tok)
                 = fst (GenerateTokenPair f now
                          (ts\<lparr>refreshTokenRepo := fst (RevokeToken f now ?c h)\<rparr>) u)"
    by blast
  then show ?thesis
  proof cases
    case 1
    with d' have "d' \<in> set (docs ?c)" by simp
    with dist d eq have "d' = d" by (simp add: distinct_ids_eq)
    with r show ?thesis by simp
  next
    case 2
    with d' have "d' \<in> set (docs (fst (RevokeToken f now ?c h)))" by simp
    with wf d r show ?thesis using eq by (rule keeps_RevokeToken)
  next
    case 3
    let ?c1 = "fst (RevokeToken f now ?c h)"
    let ?ts1 = "ts\<lparr>refreshTokenRepo := ?c1\<rparr>"
    have wf1: "wf_collection (refreshTokenRepo ?ts1)" using wf by (simp add: wf_RevokeToken)
    from d have "ID d \<in> ID ` set (docs ?c1)" by (simp add: RevokeToken_ids)
    then obtain d1 where d1: "d1 \<in> set (docs ?c1)" and id1: "ID d1 = ID d" by auto
    have r1: "Revoked d1" using wf d r d1 id1 by (rule keeps_RevokeToken)
    have "d1 \<in> set (docs (refreshTokenRepo ?ts1))" using d1 by simp
    moreover have "d' \<in> set (docs (refreshTokenRepo (fst (GenerateTokenPair f now ?ts1 u))))"
      using d' 3 by simp
    moreover have "ID d' = ID d1" using eq id1 by simp
    ultimately show ?thesis using wf1 r1 keeps_GenerateTokenPair by blast
  qed
qed

subsection \<open>Issued tokens\<close>

lemma example_GenerateTokenPair:
  "GenerateTokenPair no_faults 500000000 example_service ''u1''
     = (example_issued, Inr \<lparr> AccessToken = example_access, RefreshToken = example_refresh \<rparr>)"
  by (simp add: GenerateTokenPair_eq no_faults_def example_service_def NewTokenService_def
        empty_collection_def example_cfg_def example_issued_def example_access_def
        example_refresh_def issued_doc_def accessClaims_def refreshClaims_def
        Add_def Unix_def Duration_mul_def wrap64_def Minute_def Hour_def)

lemma validate_jwt_hs256:
  "jwt_Parse (hs256 secret claims) (keyFunc secret) now
     = (case Validate claims now of Some e \<Rightarrow> Inl e | None \<Rightarrow> Inr claims)"
  by (simp add: jwt_Parse_def hs256_def GetSigningMethod_HS256 keyFunc_def Verify_def)

lemma Validate_accessClaims:
  "Validate (accessClaims ts now userID) now'
     = (if Unix (Add now (Duration_mul Minute (AccessTokenExpireMin (cfg ts)))) \<noteq> 0
           \<and> Unix (Add now (Duration_mul Minute (AccessTokenExpireMin (cfg ts)))) * 1000000000 \<le> now'
        then Some ErrTokenExpired else None)"
  by (simp add: Validate_def parseNumericDate_def claim_def accessClaims_def not_less)


lemma ValidateAccessToken_issued:
  "ValidateAccessToken now' ts (hs256 (JWTAccessSecret (cfg ts)) (accessClaims ts now userID))
     = (if Unix (Add now (Duration_mul Minute (AccessTokenExpireMin (cfg ts)))) \<noteq> 0
           \<and> Unix (Add now (Duration_mul Minute (AccessTokenExpireMin (cfg ts)))) * 1000000000 \<le> now'
        then Inl (ErrInvalidToken_wrapping ErrTokenExpired)
        else if userID = [] then Inl ErrInvalidToken else Inr userID)"
  by (simp add: ValidateAccessToken_def validate_jwt_hs256 Validate_accessClaims)
     (simp add: claim_string_def claim_def accessClaims_def)


lemma ValidateAccessToken_cfg:
  "cfg ts' = cfg ts \<Longrightarrow> ValidateAccessToken now ts' tok = ValidateAccessToken now ts tok"
  by (simp add: ValidateAccessToken_def)


subsection \<open>Configuration\<close>



subsection \<open>Rotation\<close>















section \<open>The claims\<close>







text \<open>
  C3 (as amended). For every non-empty user identifier, the access token of a successful
  \<open>GenerateTokenPair\<close> validates to that identifier at every time strictly before the
  instant of its \<open>exp\<close> claim, and fails with an error wrapping \<open>ErrInvalidToken\<close> from
  that instant on (an \<open>exp\<close> claim of 0 is read as no expiry). The result does not
  depend on the store, and the call leaves the service as it is.
\<close>

theorem access_token_roundtrip:
  assumes "userID \<noteq> []" and "GenerateTokenPair f now ts userID = (ts', Inr p)"
  shows "ValidateAccessToken now' ts' (AccessToken p)
           = (if Unix (Add now (Duration_mul Minute (AccessTokenExpireMin (cfg ts)))) \<noteq> 0
                 \<and> Unix (Add now (Duration_mul Minute (AccessTokenExpireMin (cfg ts))))
                     * 1000000000 \<le> now'
              then Inl (ErrInvalidToken_wrapping ErrTokenExpired) else Inr userID)
       \<and> ValidateAccessToken now' (ts'\<lparr>refreshTokenRepo := r\<rparr>) tok
           = ValidateAccessToken now' ts' tok
       \<and> exec f' now' ts' (Call_ValidateAccessToken tok) = ts'"
proof -
  have nf: "\<not> insert_fails f"
  proof
    assume "insert_fails f"
    then have "snd (GenerateTokenPair f now ts userID)
                 = Inl (StoreRefreshTokenFailed (DriverError ConnectionError))"
      by (simp add: GenerateTokenPair_eq)
    with assms(2) show False by simp
  qed
  have "snd (GenerateTokenPair f now ts userID) = Inr p" using assms(2) by simp
  then have "AccessToken p = AccessToken
               \<lparr> AccessToken = hs256 (JWTAccessSecret (cfg ts)) (accessClaims ts now userID),
                 RefreshToken = hs256 (JWTRefreshSecret (cfg ts)) (refreshClaims ts now userID) \<rparr>"
    using nf by (simp add: GenerateTokenPair_eq)
  then have p: "AccessToken p = hs256 (JWTAccessSecret (cfg ts)) (accessClaims ts now userID)"
    by simp
  have "cfg (fst (GenerateTokenPair f now ts userID)) = cfg ts"
    by (simp add: GenerateTokenPair_eq)
  then have c: "cfg ts' = cfg ts" using assms(2) by simp
  have "ValidateAccessToken now' ts' (AccessToken p)
          = ValidateAccessToken now' ts (hs256 (JWTAccessSecret (cfg ts)) (accessClaims ts now userID))"
    using p ValidateAccessToken_cfg [OF c] by simp
  then have first: "ValidateAccessToken now' ts' (AccessToken p)
           = (if Unix (Add now (Duration_mul Minute (AccessTokenExpireMin (cfg ts)))) \<noteq> 0
                 \<and> Unix (Add now (Duration_mul Minute (AccessTokenExpireMin (cfg ts))))
                     * 1000000000 \<le> now'
              then Inl (ErrInvalidToken_wrapping ErrTokenExpired) else Inr userID)"
    using assms(1) by (simp add: ValidateAccessToken_issued)
  have second: "ValidateAccessToken now' (ts'\<lparr>refreshTokenRepo := r\<rparr>) tok
           = ValidateAccessToken now' ts' tok"
    by (rule ValidateAccessToken_cfg) simp
  show ?thesis using first second by simp
qed

theorem access_token_roundtrip_witness:
  "''u1'' \<noteq> []
   \<and> GenerateTokenPair no_faults 500000000 example_service ''u1''
       = (example_issued, Inr \<lparr> AccessToken = example_access, RefreshToken = example_refresh \<rparr>)
   \<and> ValidateAccessToken 899999999999 example_issued example_access = Inr ''u1''"
proof -
  have h1: "''u1'' \<noteq> []" by simp
  have h2: "GenerateTokenPair no_faults 500000000 example_service ''u1''
       = (example_issued, Inr \<lparr> AccessToken = example_access, RefreshToken = example_refresh \<rparr>)"
    by (rule example_GenerateTokenPair)
  have "ValidateAccessToken 899999999999 example_issued example_access = Inr ''u1''"
    using access_token_roundtrip [OF h1 h2, of 899999999999]
    by (simp add: example_service_def NewTokenService_def example_cfg_def
          Add_def Unix_def Duration_mul_def wrap64_def Minute_def)
  with h1 h2 show ?thesis by simp
qed

theorem access_token_empty_subject_counterexample:
  "GenerateTokenPair no_faults 500000000 example_service []
     = (example_service\<lparr>refreshTokenRepo :=
          \<lparr> docs = [\<lparr> ID = 1, UserID = [],
                      Token = hs256 ''refresh-secret''
                                [(''sub'', JString []), (''exp'', JNumber 604800),
                                 (''typ'', JString ''refresh'')],
                      ExpiresAt = 604800500000000, CreatedAt = 500000000,
                      Revoked = False, UpdatedAt = None \<rparr>],
            next_oid = 2 \<rparr>\<rparr>,
        Inr \<lparr> AccessToken = hs256 ''access-secret''
                              [(''sub'', JString []), (''exp'', JNumber 900),
                               (''typ'', JString ''access'')],
              RefreshToken = hs256 ''refresh-secret''
                               [(''sub'', JString []), (''exp'', JNumber 604800),
                                (''typ'', JString ''refresh'')] \<rparr>)
   \<and> ValidateAccessToken 600000000 example_service
        (hs256 ''access-secret''
           [(''sub'', JString []), (''exp'', JNumber 900), (''typ'', JString ''access'')])
       = Inl ErrInvalidToken"
proof -
  have a: "accessClaims example_service 500000000 []
             = [(''sub'', JString []), (''exp'', JNumber 900), (''typ'', JString ''access'')]"
    by (simp add: accessClaims_def example_service_def NewTokenService_def example_cfg_def
          Add_def Unix_def Duration_mul_def wrap64_def Minute_def)
  have s: "JWTAccessSecret (cfg example_service) = ''access-secret''"
    by (simp add: example_service_def NewTokenService_def example_cfg_def)
  have g: "GenerateTokenPair no_faults 500000000 example_service []
     = (example_service\<lparr>refreshTokenRepo :=
          \<lparr> docs = [\<lparr> ID = 1, UserID = [],
                      Token = hs256 ''refresh-secret''
                                [(''sub'', JString []), (''exp'', JNumber 604800),
                                 (''typ'', JString ''refresh'')],
                      ExpiresAt = 604800500000000, CreatedAt = 500000000,
                      Revoked = False, UpdatedAt = None \<rparr>],
            next_oid = 2 \<rparr>\<rparr>,
        Inr \<lparr> AccessToken = hs256 ''access-secret''
                              [(''sub'', JString []), (''exp'', JNumber 900),
                               (''typ'', JString ''access'')],
              RefreshToken = hs256 ''refresh-secret''
                               [(''sub'', JString []), (''exp'', JNumber 604800),
                                (''typ'', JString ''refresh'')] \<rparr>)"
    by (simp add: GenerateTokenPair_eq no_faults_def example_service_def NewTokenService_def
        empty_collection_def example_cfg_def issued_doc_def accessClaims_def refreshClaims_def
        Add_def Unix_def Duration_mul_def wrap64_def Minute_def Hour_def)
  have v: "ValidateAccessToken 600000000 example_service
             (hs256 (JWTAccessSecret (cfg example_service)) (accessClaims example_service 500000000 []))
             = Inl ErrInvalidToken"
    by (simp add: ValidateAccessToken_issued)
       (simp add: example_service_def NewTokenService_def example_cfg_def
          Add_def Unix_def Duration_mul_def wrap64_def Minute_def)
  show ?thesis using g v by (simp add: a s)
qed

text \<open>
  C4. In a collection whose identifiers are distinct, no call of the service or of the
  repository clears a revoked flag: a document that is revoked before the call is,
  under its identifier, still revoked after it if it is still there.
\<close>

theorem revoked_never_cleared:
  assumes "wf_collection (refreshTokenRepo ts)"
    and "d \<in> set (docs (refreshTokenRepo ts))" and "Revoked d"
    and "d' \<in> set (docs (refreshTokenRepo (exec f now ts c)))" and "ID d' = ID d"
  shows "Revoked d'"
proof (cases c)
  case (Call_GenerateTokenPair u)
  with assms(4)
  have "d' \<in> set (docs (refreshTokenRepo (fst (GenerateTokenPair f now ts u))))" by simp
  with assms(1,2,3) show ?thesis using assms(5) by (rule keeps_GenerateTokenPair)
next
  case (Call_ValidateAccessToken t)
  with assms(4) have "d' \<in> set (docs (refreshTokenRepo ts))" by simp
  with assms(1,2,3) show ?thesis using assms(5) by (rule keeps_same)
next
  case (Call_RevokeRefreshTokens u)
  have "refreshTokenRepo (fst (RevokeRefreshTokens f now ts u))
          = fst (RevokeUserTokens f now (refreshTokenRepo ts) u)"
    by (simp add: RevokeRefreshTokens_def split: prod.splits)
  with Call_RevokeRefreshTokens assms(4)
  have "d' \<in> set (docs (fst (RevokeUserTokens f now (refreshTokenRepo ts) u)))" by simp
  with assms(1,2,3) show ?thesis using assms(5) by (rule keeps_RevokeUserTokens)
next
  case (Call_UseRefreshToken t)
  with assms(4)
  have "d' \<in> set (docs (refreshTokenRepo (fst (UseRefreshToken f now ts t))))" by simp
  with assms(1,2,3) show ?thesis using assms(5) by (rule keeps_UseRefreshToken)
next
  case Call_CleanupExpiredRefreshTokens
  have "refreshTokenRepo (fst (CleanupExpiredRefreshTokens f now ts))
          = fst (CleanupExpired f now (refreshTokenRepo ts))"
    by (simp add: CleanupExpiredRefreshTokens_def split: prod.splits)
  with Call_CleanupExpiredRefreshTokens assms(4)
  have "d' \<in> set (docs (fst (CleanupExpired f now (refreshTokenRepo ts))))" by simp
  with assms(1,2,3) show ?thesis using assms(5) by (rule keeps_CleanupExpired)
next
  case (Repo_Create n)
  with assms(4) have "d' \<in> set (docs (fst (Create f (refreshTokenRepo ts) n)))" by simp
  with assms(1,2,3) show ?thesis using assms(5) by (rule keeps_Create)
next
  case (Repo_FindByToken t u)
  with assms(4) have "d' \<in> set (docs (refreshTokenRepo ts))" by simp
  with assms(1,2,3) show ?thesis using assms(5) by (rule keeps_same)
next
  case (Repo_RevokeUserTokens u)
  with assms(4)
  have "d' \<in> set (docs (fst (RevokeUserTokens f now (refreshTokenRepo ts) u)))" by simp
  with assms(1,2,3) show ?thesis using assms(5) by (rule keeps_RevokeUserTokens)
next
  case (Repo_RevokeToken h)
  with assms(4) have "d' \<in> set (docs (fst (RevokeToken f now (refreshTokenRepo ts) h)))" by simp
  with assms(1,2,3) show ?thesis using assms(5) by (rule keeps_RevokeToken)
next
  case Repo_CleanupExpired
  with assms(4) have "d' \<in> set (docs (fst (CleanupExpired f now (refreshTokenRepo ts))))" by simp
  with assms(1,2,3) show ?thesis using assms(5) by (rule keeps_CleanupExpired)
qed

theorem revoked_never_cleared_witness:
  "wf_collection (refreshTokenRepo example_store)
   \<and> example_docs ! 1 \<in> set (docs (refreshTokenRepo example_store))
   \<and> Revoked (example_docs ! 1)
   \<and> revoke_update 9 (example_docs ! 1)
        \<in> set (docs (refreshTokenRepo (exec no_faults 9 example_store (Repo_RevokeToken (Hex 2)))))
   \<and> ID (revoke_update 9 (example_docs ! 1)) = ID (example_docs ! 1)
   \<and> Revoked (revoke_update 9 (example_docs ! 1))"
proof -
  have h1: "wf_collection (refreshTokenRepo example_store)"
    by (simp add: wf_collection_def example_store_def example_docs_def)
  have h2: "example_docs ! 1 \<in> set (docs (refreshTokenRepo example_store))"
    by (simp add: example_store_def example_docs_def)
  have h3: "Revoked (example_docs ! 1)"
    by (simp add: example_docs_def)
  have h4: "revoke_update 9 (example_docs ! 1)
        \<in> set (docs (refreshTokenRepo (exec no_faults 9 example_store (Repo_RevokeToken (Hex 2)))))"
    by (simp add: RevokeToken_Hex no_faults_def example_store_def example_docs_def)
  have h5: "ID (revoke_update 9 (example_docs ! 1)) = ID (example_docs ! 1)"
    by (simp add: revoke_update_def)
  show ?thesis
    using h1 h2 h3 h4 h5 revoked_never_cleared [OF h1 h2 h3 h4 h5] by simp
qed

text \<open>
  C5. When the insert of the refresh token document fails, \<open>GenerateTokenPair\<close> returns
  an error and no pair, for every user and every state, and the store is as before.
\<close>

theorem failed_store_write_returns_no_pair:
  assumes "insert_fails f"
  shows "GenerateTokenPair f now ts userID
           = (ts, Inl (StoreRefreshTokenFailed (DriverError ConnectionError)))"
  using assms by (simp add: GenerateTokenPair_eq)

theorem failed_store_write_returns_no_pair_witness:
  "insert_fails (no_faults\<lparr>insert_fails := True\<rparr>)
   \<and> GenerateTokenPair (no_faults\<lparr>insert_fails := True\<rparr>) 0
        (NewTokenService (LoadConfig Map.empty) empty_collection) ''u1''
       = (NewTokenService (LoadConfig Map.empty) empty_collection,
          Inl (StoreRefreshTokenFailed (DriverError ConnectionError)))"
proof -
  have h: "insert_fails (no_faults\<lparr>insert_fails := True\<rparr>)" by simp
  show ?thesis using h failed_store_write_returns_no_pair [OF h] by simp
qed



text \<open>
  C7. When the update succeeds, \<open>RevokeRefreshTokens\<close> returns no error, revokes the
  documents of the user that were not revoked and changes no other document; after it
  every document of the user is revoked, and a second call, at any later time, returns
  no error and leaves the state as the first call left it.
\<close>

theorem revoke_all_for_user_idempotent:
  assumes "\<not> update_fails f" and "\<not> update_fails f2"
  shows "snd (RevokeRefreshTokens f now ts userID) = None
       \<and> docs (refreshTokenRepo (fst (RevokeRefreshTokens f now ts userID)))
           = map (\<lambda>d. if UserID d = userID \<and> Revoked d = False
                       then d\<lparr>Revoked := True, UpdatedAt := Some now\<rparr> else d)
               (docs (refreshTokenRepo ts))
       \<and> (\<forall>d \<in> set (docs (refreshTokenRepo (fst (RevokeRefreshTokens f now ts userID)))).
             UserID d = userID \<longrightarrow> Revoked d)
       \<and> RevokeRefreshTokens f2 now2 (fst (RevokeRefreshTokens f now ts userID)) userID
           = (fst (RevokeRefreshTokens f now ts userID), None)"
proof -
  let ?c = "refreshTokenRepo ts"
  let ?c1 = "?c\<lparr>docs := map (revoke_doc userID now) (docs ?c)\<rparr>"
  let ?ts1 = "ts\<lparr>refreshTokenRepo := ?c1\<rparr>"
  have first: "RevokeRefreshTokens f now ts userID = (?ts1, None)"
    using assms(1) by (simp add: RevokeRefreshTokens_def RevokeUserTokens_ok)
  have c1: "snd (?ts1, None :: repo_error option) = None"
    by simp
  have c2: "docs (refreshTokenRepo (fst (?ts1, None :: repo_error option)))
              = map (\<lambda>d. if UserID d = userID \<and> Revoked d = False
                          then d\<lparr>Revoked := True, UpdatedAt := Some now\<rparr> else d) (docs ?c)"
    by (simp add: revoke_doc_def revoke_update_def)
  have c3: "\<forall>d \<in> set (docs (refreshTokenRepo (fst (?ts1, None :: repo_error option)))).
              UserID d = userID \<longrightarrow> Revoked d"
    using revoke_doc_revoked by auto
  have "map (revoke_doc userID now2) (docs ?c1) = docs ?c1"
    by (simp add: revoke_doc_idem)
  then have "RevokeUserTokens f2 now2 ?c1 userID = (?c1, None)"
    using assms(2) by (simp add: RevokeUserTokens_ok)
  then have c4: "RevokeRefreshTokens f2 now2 (fst (?ts1, None :: repo_error option)) userID
                   = (fst (?ts1, None :: repo_error option), None)"
    by (simp add: RevokeRefreshTokens_def)
  show ?thesis
    unfolding first using c1 c2 c3 c4 by blast
qed

theorem revoke_all_for_user_idempotent_witness:
  "\<not> update_fails no_faults
   \<and> map Revoked (docs (refreshTokenRepo (fst (RevokeRefreshTokens no_faults 7 example_store ''u1''))))
       = [True, True, True]
   \<and> RevokeRefreshTokens no_faults 8 (fst (RevokeRefreshTokens no_faults 7 example_store ''u1'')) ''u1''
       = (fst (RevokeRefreshTokens no_faults 7 example_store ''u1''), None)"
proof -
  have h: "\<not> update_fails no_faults" by (simp add: no_faults_def)
  have "docs (refreshTokenRepo (fst (RevokeRefreshTokens no_faults 7 example_store ''u1'')))
          = map (\<lambda>d. if UserID d = ''u1'' \<and> Revoked d = False
                      then d\<lparr>Revoked := True, UpdatedAt := Some 7\<rparr> else d)
              (docs (refreshTokenRepo example_store))"
    using revoke_all_for_user_idempotent [OF h h, of 7 example_store "''u1''" 8] by blast
  then have "map Revoked (docs (refreshTokenRepo (fst (RevokeRefreshTokens no_faults 7 example_store ''u1''))))
       = [True, True, True]"
    by (simp add: example_store_def example_docs_def)
  then show ?thesis
    using h revoke_all_for_user_idempotent [OF h h, of 7 example_store "''u1''" 8] by blast
qed







text \<open>
  C10. Both parsers reject a token whose header names a signing method outside the HMAC
  family (\<open>none\<close>, an RSA method, or a method that is not registered), whatever its
  claims and signature: the key callback answers \<open>ErrSignatureInvalid\<close> for the
  method, the parse fails, and the call fails with an error wrapping
  \<open>ErrInvalidToken\<close>; the rotation leaves the store as it is.
\<close>

theorem non_hmac_rejected:
  assumes "\<forall>h. GetSigningMethod alg \<noteq> Some (SigningMethodHMAC h)"
  shows "ValidateAccessToken now ts (Compact alg claims sg)
           = Inl (ErrInvalidToken_wrapping ErrTokenUnverifiable)
       \<and> UseRefreshToken f now ts (Compact alg claims sg)
           = (ts, Inl (ErrInvalidToken_wrapping ErrTokenUnverifiable))
       \<and> Is_ErrInvalidToken (ErrInvalidToken_wrapping ErrTokenUnverifiable)
       \<and> (GetSigningMethod alg = Some m \<longrightarrow> keyFunc secret m = Inl ErrSignatureInvalid)"
proof -
  have "keyFunc secret m = Inl ErrSignatureInvalid" if "GetSigningMethod alg = Some m"
  proof -
    from that assms have "\<forall>h. m \<noteq> SigningMethodHMAC h" by simp
    then show ?thesis by (rule keyFunc_non_hmac)
  qed
  then show ?thesis
    using jwt_Parse_non_hmac [OF assms]
    by (simp add: ValidateAccessToken_def UseRefreshToken_def validateRefreshJWT_def)
qed

theorem non_hmac_rejected_witness:
  "(\<forall>h. GetSigningMethod ''none'' \<noteq> Some (SigningMethodHMAC h))
   \<and> ValidateAccessToken 0 (NewTokenService (LoadConfig Map.empty) empty_collection)
        (Compact ''none'' [(''sub'', JString ''admin''), (''typ'', JString ''access'')]
           (RawSignature []))
       = Inl (ErrInvalidToken_wrapping ErrTokenUnverifiable)
   \<and> GetSigningMethod ''none'' = Some SigningMethodNone
   \<and> keyFunc ''secret'' SigningMethodNone = Inl ErrSignatureInvalid"
proof -
  have h: "\<forall>h. GetSigningMethod ''none'' \<noteq> Some (SigningMethodHMAC h)"
    by (simp add: GetSigningMethod_none)
  show ?thesis
    using h non_hmac_rejected [OF h, of _ _ _ _ _ SigningMethodNone "''secret''"]
    by (simp add: GetSigningMethod_none)
qed

end
